theory Spec2Isabelle
  imports Complex_Main "HOL-Library.AList"
begin

section \<open>Python values\<close>

text \<open>
  A Python \<open>str\<close> is a \<open>string\<close> holding its UTF-8 bytes. \<open>str.lower\<close> and
  \<open>str.strip\<close> are modelled on ASCII: the letters \<open>A\<close> to \<open>Z\<close> are lowered, the
  ASCII whitespace characters (codes 9 to 13, 28 to 32) are stripped, every other byte is
  left as it is. All labels of \<open>utils/constants.GENRES\<close> are ASCII.

  A Python \<open>float\<close> is idealised as an exact rational: division, comparison, \<open>min\<close>
  and \<open>sum\<close> are the exact ones, and \<open>round(x, n)\<close> rounds to the nearest multiple
  of \<open>10\<^sup>-\<^sup>n\<close>, a tie going to the even one. Python's \<open>int\<close> is \<open>int\<close>.
  The code rounds and formats a double, which carries the error of the operations before
  it: where the exact value is a decimal tie (as 0.1665 to three places, or 4.35 to one),
  the code returns one of the two nearest values and \<open>py_round\<close> and \<open>str_fixed\<close>
  the even one, which can be the other. Off such ties the two agree.
\<close>

datatype py_error = ZeroDivisionError

definition char_lower :: "char \<Rightarrow> char" where
  "char_lower c =
     (let n = (of_char c :: nat) in if 65 \<le> n \<and> n \<le> 90 then char_of (n + 32) else c)"

definition str_lower :: "string \<Rightarrow> string" where
  "str_lower s = map char_lower s"

definition is_space :: "char \<Rightarrow> bool" where
  "is_space c = (let n = (of_char c :: nat) in (9 \<le> n \<and> n \<le> 13) \<or> (28 \<le> n \<and> n \<le> 32))"

definition str_strip :: "string \<Rightarrow> string" where
  "str_strip s = rev (dropWhile is_space (rev (dropWhile is_space s)))"

fun str_join :: "string \<Rightarrow> string list \<Rightarrow> string" where
  "str_join sep [] = []"
| "str_join sep [x] = x"
| "str_join sep (x # y # ys) = x @ sep @ str_join sep (y # ys)"

text \<open>\<open>xs[:n]\<close>: a negative \<open>n\<close> counts from the end.\<close>

definition slice_to :: "int \<Rightarrow> 'a list \<Rightarrow> 'a list" where
  "slice_to n xs = (if 0 \<le> n then take (nat n) xs else take (nat (int (length xs) + n)) xs)"

definition round_half_even :: "rat \<Rightarrow> int" where
  "round_half_even q =
     (let f = \<lfloor>q\<rfloor>; d = q - of_int f
      in if d < 1 / 2 then f else if 1 / 2 < d then f + 1 else if even f then f else f + 1)"

definition py_round :: "rat \<Rightarrow> nat \<Rightarrow> rat" where
  "py_round x n = of_int (round_half_even (x * 10 ^ n)) / 10 ^ n"

text \<open>\<open>list.sort(key=..., reverse=True)\<close>: stable, largest key first.\<close>

definition sort_desc :: "('a \<Rightarrow> rat) \<Rightarrow> 'a list \<Rightarrow> 'a list" where
  "sort_desc key xs = sort_key (\<lambda>x. - key x) xs"

text \<open>Decimal digits of a natural number, and \<open>str\<close> of an \<open>int\<close>.\<close>

fun str_nat :: "nat \<Rightarrow> string" where
  "str_nat n = (if n < 10 then [char_of (48 + n)] else str_nat (n div 10) @ [char_of (48 + n mod 10)])"

declare str_nat.simps [simp del]

definition str_int :: "int \<Rightarrow> string" where
  "str_int i = (if i < 0 then CHR ''-'' # str_nat (nat (- i)) else str_nat (nat i))"

text \<open>
  \<open>format(x, '.kf')\<close> for \<open>k = 0\<close> and \<open>k = 1\<close>, and \<open>repr\<close> of a float that holds a
  value of at most two decimals (what \<open>database.get_average_book_rating\<close> returns,
  which rounds to two places); a value with more decimals is shown rounded to two.
\<close>

definition str_fixed :: "nat \<Rightarrow> rat \<Rightarrow> string" where
  "str_fixed k x =
     (let m = round_half_even (\<bar>x\<bar> * 10 ^ k);
          ip = nat m div 10 ^ k;
          fp = nat m mod 10 ^ k;
          sign = (if x < 0 then ''-'' else '''')
      in if k = 0 then sign @ str_nat ip
         else sign @ str_nat ip @ ''.'' @ replicate (k - length (str_nat fp)) CHR ''0'' @ str_nat fp)"

definition str_float :: "rat \<Rightarrow> string" where
  "str_float x =
     (let m = round_half_even (\<bar>x\<bar> * 100);
          ip = nat m div 100;
          fp = nat m mod 100;
          sign = (if x < 0 then ''-'' else '''')
      in sign @ str_nat ip @ ''.'' @
         (if fp mod 10 = 0 then str_nat (fp div 10)
          else replicate (2 - length (str_nat fp)) CHR ''0'' @ str_nat fp))"

definition star :: string where
  "star = [char_of (0xE2::nat), char_of (0x98::nat), char_of (0x85::nat)]"

definition bullet_sep :: string where
  "bullet_sep = CHR '' '' # [char_of (0xE2::nat), char_of (0x80::nat), char_of (0xA2::nat)] @ '' ''"

section \<open>recommender/utils.py\<close>

definition jaccard_similarity :: "string set \<Rightarrow> string set \<Rightarrow> rat" where
  "jaccard_similarity set1 set2 =
     (if set1 = {} \<and> set2 = {} then 0
      else let intersection = card (set1 \<inter> set2);
               union = card (set1 \<union> set2)
           in if union = 0 then 0 else of_nat intersection / of_nat union)"

definition normalize_genres :: "string list \<Rightarrow> string set" where
  "normalize_genres genres =
     (if genres = [] then {}
      else set (map (\<lambda>g. str_strip (str_lower g)) (filter (\<lambda>g. g \<noteq> []) genres)))"

definition calculate_genre_overlap :: "string list \<Rightarrow> string list \<Rightarrow> rat" where
  "calculate_genre_overlap user_interests book_genres =
     (let user_set = normalize_genres user_interests;
          book_set = normalize_genres book_genres
      in jaccard_similarity user_set book_set)"

definition MIN_SIMILARITY_THRESHOLD :: rat where
  "MIN_SIMILARITY_THRESHOLD = 1 / 10"

section \<open>The data-access collaborator (database.py)\<close>

text \<open>
  The dictionaries that \<open>database.py\<close> builds from its rows are records; a field
  \<open>x_k\<close> is the key \<open>'k'\<close> of the dictionary (\<open>u_id\<close> is \<open>user['id']\<close>,
  \<open>b_genres\<close> is \<open>book['genres']\<close>, \<open>i_rated_by_user_id\<close> is
  \<open>item['rated_by_user_id']\<close>). Keys that the recommendation code never reads (email,
  created_at, cover_image, ...) are left out. \<open>b_avg_rating\<close> is \<open>None\<close> both for
  the Python value \<open>None\<close> and for a dictionary without the key.
\<close>

record user =
  u_id :: int
  u_username :: string
  u_interests :: "string list"

record book =
  b_id :: int
  b_title :: string
  b_author :: string
  b_genres :: "string list"
  b_description :: string
  b_avg_rating :: "rat option"

record rated_item =
  i_id :: int
  i_title :: string
  i_author :: string
  i_genres :: "string list"
  i_description :: string
  i_rating :: int
  i_rated_by_user_id :: int

text \<open>
  The recommendation code reads the database through the functions of \<open>database.py\<close>
  only, and each of them is one SQL query. What the queries return is the parameter of the
  model: a record with one field for each function. A row of \<open>get_popular_books\<close> is
  a book together with its \<open>'rating_count'\<close>.
\<close>

record database =
  get_user_by_id :: "int \<Rightarrow> user option"
  get_all_users :: "user list"
  get_book_by_id :: "int \<Rightarrow> book option"
  get_all_books :: "book list"
  get_recent_books :: "int \<Rightarrow> book list"
  get_user_rating :: "int \<Rightarrow> int \<Rightarrow> int option"
  get_average_book_rating :: "int \<Rightarrow> rat option"
  get_popular_books :: "int \<Rightarrow> (book \<times> int) list"
  get_rated_book_ids :: "int \<Rightarrow> int list"
  high_rated_rows :: "int list \<Rightarrow> int \<Rightarrow> rated_item list"

definition get_high_rated_books_by_users :: "database \<Rightarrow> int list \<Rightarrow> int \<Rightarrow> rated_item list" where
  "get_high_rated_books_by_users db user_ids min_rating =
     (if user_ids = [] then [] else high_rated_rows db user_ids min_rating)"

section \<open>Recommendation records\<close>

record recommendation =
  r_book :: book
  r_score :: rat
  r_reason :: string
  r_recommendation_type :: string
  r_num_similar_users :: "nat option"

section \<open>recommender/content_based.py\<close>

definition content_reason :: "string list \<Rightarrow> string list \<Rightarrow> string" where
  "content_reason user_interests book_genres =
     (let matching_genres = set (map str_lower user_interests) \<inter> set (map str_lower book_genres);
          matching_list = filter (\<lambda>g. str_lower g \<in> matching_genres) book_genres
      in if matching_list \<noteq> []
         then ''Matches your interest in '' @ str_join '', '' (take 3 matching_list)
         else ''Based on your reading preferences'')"

text \<open>One round of the loop over \<open>all_books\<close>: \<open>None\<close> is \<open>continue\<close>.\<close>

definition content_candidate ::
  "database \<Rightarrow> string list \<Rightarrow> int set \<Rightarrow> book \<Rightarrow> recommendation option" where
  "content_candidate db user_interests rated_book_ids book =
     (if b_id book \<in> rated_book_ids then None
      else let score = calculate_genre_overlap user_interests (b_genres book)
           in if score < MIN_SIMILARITY_THRESHOLD then None
              else Some \<lparr> r_book = book \<lparr> b_avg_rating := get_average_book_rating db (b_id book) \<rparr>,
                          r_score = py_round score 3,
                          r_reason = content_reason user_interests (b_genres book),
                          r_recommendation_type = ''content_based'',
                          r_num_similar_users = None \<rparr>)"

definition get_content_based_recommendations :: "database \<Rightarrow> int \<Rightarrow> int \<Rightarrow> recommendation list" where
  "get_content_based_recommendations db user_id limit =
     (case get_user_by_id db user_id of
        None \<Rightarrow> []
      | Some user \<Rightarrow>
          let user_interests = u_interests user
          in if user_interests = [] then []
             else let all_books = get_all_books db;
                      rated_book_ids = set (get_rated_book_ids db user_id);
                      recommendations =
                        List.map_filter (content_candidate db user_interests rated_book_ids) all_books
                  in slice_to limit (sort_desc r_score recommendations))"

section \<open>recommender/collaborative.py\<close>

record similar_user =
  s_user_id :: int
  s_username :: string
  s_similarity :: rat
  s_common_interests :: "string list"

text \<open>One round of the loop over \<open>all_users\<close>: \<open>None\<close> is \<open>continue\<close> or a peer below the threshold.\<close>

definition similar_candidate ::
  "int \<Rightarrow> user \<Rightarrow> string set \<Rightarrow> rat \<Rightarrow> user \<Rightarrow> similar_user option" where
  "similar_candidate user_id target_user target_interests min_similarity user =
     (if u_id user = user_id then None
      else let user_interests = normalize_genres (u_interests user)
           in if user_interests = {} then None
              else let similarity = jaccard_similarity target_interests user_interests
                   in if min_similarity \<le> similarity
                      then let common = target_interests \<inter> user_interests;
                               common_display = filter (\<lambda>g. str_lower g \<in> common) (u_interests target_user)
                           in Some \<lparr> s_user_id = u_id user,
                                       s_username = u_username user,
                                       s_similarity = py_round similarity 3,
                                       s_common_interests = common_display \<rparr>
                      else None)"

definition find_similar_users :: "database \<Rightarrow> int \<Rightarrow> rat \<Rightarrow> similar_user list" where
  "find_similar_users db user_id min_similarity =
     (case get_user_by_id db user_id of
        None \<Rightarrow> []
      | Some target_user \<Rightarrow>
          let target_interests = normalize_genres (u_interests target_user)
          in if target_interests = {} then []
             else let all_users = get_all_users db;
                      similar_users =
                        List.map_filter
                          (similar_candidate user_id target_user target_interests min_similarity) all_users
                  in sort_desc s_similarity similar_users)"

record contributor =
  c_user_id :: int
  c_rating :: int
  c_similarity :: rat

record score_entry =
  e_score :: rat
  e_contributors :: "contributor list"
  e_book :: "book option"

text \<open>
  \<open>book_scores\<close> is a \<open>defaultdict\<close>; a dictionary keeps its keys in the order of
  their first insertion, so it is an association list that \<open>AList.update\<close> changes
  in place or extends at its end.
\<close>

definition default_entry :: score_entry where
  "default_entry = \<lparr> e_score = 0, e_contributors = [], e_book = None \<rparr>"

definition user_similarity_of :: "similar_user list \<Rightarrow> (int \<rightharpoonup> rat)" where
  "user_similarity_of similar_users =
     fold (\<lambda>u m. m(s_user_id u \<mapsto> s_similarity u)) similar_users Map.empty"

text \<open>One round of the loop over \<open>highly_rated_books\<close>.\<close>

definition score_item ::
  "(int \<rightharpoonup> rat) \<Rightarrow> int set \<Rightarrow> rated_item \<Rightarrow> (int \<times> score_entry) list \<Rightarrow> (int \<times> score_entry) list" where
  "score_item user_similarity rated_book_ids item book_scores =
     (let book_id = i_id item
      in if book_id \<in> rated_book_ids then book_scores
         else let rater_id = i_rated_by_user_id item;
                  rating = i_rating item;
                  similarity = (case user_similarity rater_id of None \<Rightarrow> 0 | Some s \<Rightarrow> s);
                  weighted_score = similarity * (of_int rating / 5);
                  entry = (case map_of book_scores book_id of None \<Rightarrow> default_entry | Some e \<Rightarrow> e)
              in AList.update book_id
                   \<lparr> e_score = e_score entry + weighted_score,
                     e_contributors = e_contributors entry @
                       [\<lparr> c_user_id = rater_id, c_rating = rating, c_similarity = similarity \<rparr>],
                     e_book = Some \<lparr> b_id = i_id item, b_title = i_title item, b_author = i_author item,
                                     b_genres = i_genres item, b_description = i_description item,
                                     b_avg_rating = None \<rparr> \<rparr>
                   book_scores)"

definition normalized_score_of :: "rat \<Rightarrow> rat \<Rightarrow> rat" where
  "normalized_score_of score max_possible =
     (if 0 < max_possible then min (score / max_possible) 1 else 0)"

definition collaborative_reason :: "nat \<Rightarrow> rat \<Rightarrow> string" where
  "collaborative_reason num_recommenders avg_rating =
     (if num_recommenders = 1
      then ''Recommended by a reader with similar taste (rated '' @ str_fixed 0 avg_rating @ star @ '')''
      else ''Loved by '' @ str_nat num_recommenders @ '' readers with similar taste (avg '' @
           str_fixed 1 avg_rating @ star @ '')'')"

text \<open>
  The loop over \<open>book_scores.items()\<close>. The division by \<open>num_recommenders\<close> has no
  guard in the source: with no contributor it raises.
\<close>

fun build_recommendations ::
  "database \<Rightarrow> rat \<Rightarrow> (int \<times> score_entry) list \<Rightarrow> py_error + recommendation list" where
  "build_recommendations db max_possible [] = Inr []"
| "build_recommendations db max_possible ((book_id, data) # rest) =
     (case e_book data of
        None \<Rightarrow> build_recommendations db max_possible rest
      | Some book \<Rightarrow>
          let normalized_score = normalized_score_of (e_score data) max_possible;
              num_recommenders = length (e_contributors data)
          in if num_recommenders = 0 then Inl ZeroDivisionError
             else let avg_rating = of_int (sum_list (map c_rating (e_contributors data))) / of_nat num_recommenders;
                      reason = collaborative_reason num_recommenders avg_rating;
                      rec = \<lparr> r_book = book \<lparr> b_avg_rating := get_average_book_rating db book_id \<rparr>,
                              r_score = py_round normalized_score 3,
                              r_reason = reason,
                              r_recommendation_type = ''collaborative'',
                              r_num_similar_users = Some num_recommenders \<rparr>
                  in (case build_recommendations db max_possible rest of
                        Inl e \<Rightarrow> Inl e
                      | Inr recommendations \<Rightarrow> Inr (rec # recommendations)))"

definition get_collaborative_recommendations ::
  "database \<Rightarrow> int \<Rightarrow> int \<Rightarrow> py_error + recommendation list" where
  "get_collaborative_recommendations db user_id limit =
     (let similar_users = find_similar_users db user_id MIN_SIMILARITY_THRESHOLD
      in if similar_users = [] then Inr []
         else let rated_book_ids = set (get_rated_book_ids db user_id);
                  similar_user_ids = map s_user_id similar_users;
                  highly_rated_books = get_high_rated_books_by_users db similar_user_ids 4
              in if highly_rated_books = [] then Inr []
                 else let user_similarity = user_similarity_of similar_users;
                          book_scores = fold (score_item user_similarity rated_book_ids) highly_rated_books [];
                          max_possible = sum_list (map s_similarity similar_users)
                      in (case build_recommendations db max_possible book_scores of
                            Inl e \<Rightarrow> Inl e
                          | Inr recommendations \<Rightarrow> Inr (slice_to limit (sort_desc r_score recommendations))))"

section \<open>services/recommendation_service.py\<close>

record recommendations =
  content_based :: "recommendation list"
  collaborative :: "recommendation list"
  fallback :: "recommendation list"

text \<open>The loop over \<open>popular\<close> and the loop over \<open>recent\<close>, on the list built so far.\<close>

fun add_popular :: "int set \<Rightarrow> (book \<times> int) list \<Rightarrow> recommendation list \<Rightarrow> recommendation list" where
  "add_popular rated_book_ids [] recommendations = recommendations"
| "add_popular rated_book_ids ((book, rating_count) # popular) recommendations =
     (if b_id book \<notin> rated_book_ids
      then add_popular rated_book_ids popular
             (recommendations @
              [\<lparr> r_book = book, r_score = 1 / 2,
                 r_reason = (if 0 < rating_count then ''Popular among readers'' else ''Recently added''),
                 r_recommendation_type = ''fallback'', r_num_similar_users = None \<rparr>])
      else add_popular rated_book_ids popular recommendations)"

fun add_recent :: "int set \<Rightarrow> book list \<Rightarrow> recommendation list \<Rightarrow> recommendation list" where
  "add_recent rated_book_ids [] recommendations = recommendations"
| "add_recent rated_book_ids (book # recent) recommendations =
     (if b_id book \<notin> rated_book_ids
      then (if \<not> list_ex (\<lambda>r. b_id (r_book r) = b_id book) recommendations
            then add_recent rated_book_ids recent
                   (recommendations @
                    [\<lparr> r_book = book, r_score = 3 / 10, r_reason = ''Recently added'',
                       r_recommendation_type = ''fallback'', r_num_similar_users = None \<rparr>])
            else add_recent rated_book_ids recent recommendations)
      else add_recent rated_book_ids recent recommendations)"

definition get_fallback_recommendations :: "database \<Rightarrow> int \<Rightarrow> int \<Rightarrow> recommendation list" where
  "get_fallback_recommendations db user_id limit =
     (let rated_book_ids = set (get_rated_book_ids db user_id);
          popular = get_popular_books db limit;
          recommendations = add_popular rated_book_ids popular [];
          recommendations =
            (if int (length recommendations) < limit
             then add_recent rated_book_ids (get_recent_books db limit) recommendations
             else recommendations)
      in slice_to limit recommendations)"

definition get_recommendations :: "database \<Rightarrow> int \<Rightarrow> int \<Rightarrow> py_error + recommendations" where
  "get_recommendations db user_id limit =
     (let content_recs = get_content_based_recommendations db user_id limit
      in case get_collaborative_recommendations db user_id limit of
           Inl e \<Rightarrow> Inl e
         | Inr collab_recs \<Rightarrow>
             Inr \<lparr> content_based = content_recs,
                   collaborative = collab_recs,
                   fallback = (if content_recs = [] \<and> collab_recs = []
                               then get_fallback_recommendations db user_id limit else []) \<rparr>)"

text \<open>
  One pass of \<open>for source in sources\<close> at index \<open>idx\<close>, on the state
  \<open>(feed, seen_ids, added)\<close>.
\<close>

fun feed_pass ::
  "nat \<Rightarrow> recommendation list list \<Rightarrow> recommendation list \<times> int set \<times> bool
     \<Rightarrow> recommendation list \<times> int set \<times> bool" where
  "feed_pass idx [] state = state"
| "feed_pass idx (source # sources) (feed, seen_ids, added) =
     (if idx < length source
      then let rec = source ! idx
           in if b_id (r_book rec) \<notin> seen_ids
              then feed_pass idx sources (feed @ [rec], insert (b_id (r_book rec)) seen_ids, True)
              else feed_pass idx sources (feed, seen_ids, added)
      else feed_pass idx sources (feed, seen_ids, added))"

text \<open>The \<open>while len(feed) < limit\<close> loop.\<close>

function feed_loop ::
  "int \<Rightarrow> recommendation list list \<Rightarrow> nat \<Rightarrow> recommendation list \<Rightarrow> int set \<Rightarrow> recommendation list" where
  "feed_loop limit sources idx feed seen_ids =
     (if int (length feed) < limit
      then (case feed_pass idx sources (feed, seen_ids, False) of
              (feed', seen_ids', added) \<Rightarrow>
                if \<not> added then feed'
                else feed_loop limit sources (idx + 1) feed' seen_ids')
      else feed)"
  by pat_completeness auto
termination
proof -
  have grows: "length feed \<le> length feed' \<and> (added' \<and> \<not> added \<longrightarrow> length feed < length feed')"
    if "feed_pass idx sources (feed, seen_ids, added) = (feed', seen_ids', added')"
    for idx sources feed seen_ids added feed' seen_ids' added'
    using that
  proof (induction sources arbitrary: feed seen_ids added)
    case Nil
    then show ?case by simp
  next
    case (Cons source sources)
    show ?case
    proof (cases "idx < length source \<and> b_id (r_book (source ! idx)) \<notin> seen_ids")
      case True
      with Cons.prems have
        "feed_pass idx sources (feed @ [source ! idx], insert (b_id (r_book (source ! idx))) seen_ids, True)
           = (feed', seen_ids', added')"
        by (simp add: Let_def)
      from Cons.IH [OF this] show ?thesis by simp
    next
      case False
      with Cons.prems have "feed_pass idx sources (feed, seen_ids, added) = (feed', seen_ids', added')"
        by (auto simp: Let_def split: if_splits)
      from Cons.IH [OF this] show ?thesis .
    qed
  qed
  show ?thesis
    by (relation "measure (\<lambda>(limit, sources, idx, feed, seen_ids). nat (limit - int (length feed)))")
       (auto dest: grows [OF sym])
qed

declare feed_loop.simps [simp del]

definition get_personalized_home_feed :: "database \<Rightarrow> int \<Rightarrow> int \<Rightarrow> py_error + recommendation list" where
  "get_personalized_home_feed db user_id limit =
     (case get_recommendations db user_id limit of
        Inl e \<Rightarrow> Inl e
      | Inr all_recs \<Rightarrow>
          let sources = [content_based all_recs, collaborative all_recs, fallback all_recs];
              feed = feed_loop limit sources 0 [] {}
          in Inr (slice_to limit feed))"

text \<open>
  The loop over \<open>similar_users[:5]\<close> of \<open>explain_recommendation\<close>: the rating of
  the first peer who rated the book 4 or more, where the loop appends its clause and breaks.
\<close>

fun first_high_rating :: "database \<Rightarrow> int \<Rightarrow> similar_user list \<Rightarrow> int option" where
  "first_high_rating db book_id [] = None"
| "first_high_rating db book_id (sim_user # sim_users) =
     (case get_user_rating db (s_user_id sim_user) book_id of
        None \<Rightarrow> first_high_rating db book_id sim_users
      | Some rating \<Rightarrow>
          if rating \<noteq> 0 \<and> 4 \<le> rating then Some rating
          else first_high_rating db book_id sim_users)"

definition explain_recommendation :: "database \<Rightarrow> int \<Rightarrow> int \<Rightarrow> string option" where
  "explain_recommendation db user_id book_id =
     (case get_user_by_id db user_id of
        None \<Rightarrow> None
      | Some user \<Rightarrow>
          (case get_book_by_id db book_id of
             None \<Rightarrow> None
           | Some book \<Rightarrow>
               let user_interests = set (map str_lower (u_interests user));
                   book_genres = set (map str_lower (b_genres book));
                   common = user_interests \<inter> book_genres;
                   explanations =
                     (if common \<noteq> {}
                      then [''This book matches your interest in '' @
                            str_join '', '' (filter (\<lambda>g. str_lower g \<in> common) (b_genres book))]
                      else []);
                   similar_users = find_similar_users db user_id MIN_SIMILARITY_THRESHOLD;
                   explanations =
                     (case first_high_rating db book_id (slice_to 5 similar_users) of
                        None \<Rightarrow> explanations
                      | Some rating \<Rightarrow>
                          explanations @ [''Readers with similar taste rated this '' @ str_int rating @ star]);
                   explanations =
                     (case get_average_book_rating db book_id of
                        None \<Rightarrow> explanations
                      | Some avg_rating \<Rightarrow>
                          if avg_rating \<noteq> 0 \<and> 4 \<le> avg_rating
                          then explanations @
                               [''Highly rated by readers ('' @ str_float avg_rating @ star @ '' average)'']
                          else explanations)
               in if explanations \<noteq> [] then Some (str_join bullet_sep explanations)
                  else Some ''Based on your reading preferences''))"

section \<open>Auxiliary notions\<close>

text \<open>The book ids of a list of recommendations.\<close>

definition book_ids :: "recommendation list \<Rightarrow> int list" where
  "book_ids recs = map (\<lambda>r. b_id (r_book r)) recs"

text \<open>
  The local variables \<open>similar_users\<close>, \<open>highly_rated_books\<close>, \<open>book_scores\<close> and
  \<open>max_possible\<close> of \<open>get_collaborative_recommendations\<close>, as functions of its arguments.
\<close>

definition peers_of :: "database \<Rightarrow> int \<Rightarrow> similar_user list" where
  "peers_of db user_id = find_similar_users db user_id MIN_SIMILARITY_THRESHOLD"

definition peer_items :: "database \<Rightarrow> int \<Rightarrow> rated_item list" where
  "peer_items db user_id = get_high_rated_books_by_users db (map s_user_id (peers_of db user_id)) 4"

definition book_scores_of :: "database \<Rightarrow> int \<Rightarrow> (int \<times> score_entry) list" where
  "book_scores_of db user_id =
     fold (score_item (user_similarity_of (peers_of db user_id)) (set (get_rated_book_ids db user_id)))
       (peer_items db user_id) []"

definition max_possible_of :: "database \<Rightarrow> int \<Rightarrow> rat" where
  "max_possible_of db user_id = sum_list (map s_similarity (peers_of db user_id))"

text \<open>
  What the loop over \<open>highly_rated_books\<close> keeps of every entry of \<open>book_scores\<close>: its
  key is not a rated book, it has a contributor, and its book carries the key as its id.
\<close>

definition entries_ok :: "int set \<Rightarrow> (int \<times> score_entry) list \<Rightarrow> bool" where
  "entries_ok rated_book_ids book_scores =
     list_all (\<lambda>(book_id, data). book_id \<notin> rated_book_ids \<and> e_contributors data \<noteq> [] \<and>
        (case e_book data of None \<Rightarrow> False | Some book \<Rightarrow> b_id book = book_id)) book_scores"

text \<open>The two kinds of fallback recommendation, and the recent books that are appended.\<close>

definition popular_rec :: "book \<times> int \<Rightarrow> recommendation" where
  "popular_rec row =
     \<lparr> r_book = fst row, r_score = 1 / 2,
       r_reason = (if 0 < snd row then ''Popular among readers'' else ''Recently added''),
       r_recommendation_type = ''fallback'', r_num_similar_users = None \<rparr>"

definition recent_rec :: "book \<Rightarrow> recommendation" where
  "recent_rec book =
     \<lparr> r_book = book, r_score = 3 / 10, r_reason = ''Recently added'',
       r_recommendation_type = ''fallback'', r_num_similar_users = None \<rparr>"

fun new_recent :: "int set \<Rightarrow> int set \<Rightarrow> book list \<Rightarrow> book list" where
  "new_recent rated present [] = []"
| "new_recent rated present (book # recent) =
     (if b_id book \<in> rated \<or> b_id book \<in> present then new_recent rated present recent
      else book # new_recent rated (insert (b_id book) present) recent)"

text \<open>
  A label \<open>h\<close> varies a non-empty label \<open>g\<close> in casing and surrounding whitespace: it
  is \<open>g\<close> with some letters in the other case, between two runs of whitespace.
\<close>

definition label_variant :: "string \<Rightarrow> string \<Rightarrow> bool" where
  "label_variant g h \<longleftrightarrow>
     g \<noteq> [] \<and> (\<exists>w1 w2 g'. h = w1 @ g' @ w2 \<and> list_all is_space w1 \<and> list_all is_space w2 \<and>
                 str_lower g' = str_lower g)"

text \<open>The three clauses of \<open>explain_recommendation\<close>, each present or not.\<close>

definition genre_clause :: "user \<Rightarrow> book \<Rightarrow> string option" where
  "genre_clause user book =
     (let common = set (map str_lower (u_interests user)) \<inter> set (map str_lower (b_genres book))
      in if common = {} then None
         else Some (''This book matches your interest in '' @
                    str_join '', '' (filter (\<lambda>g. str_lower g \<in> common) (b_genres book))))"

definition peer_clause :: "database \<Rightarrow> int \<Rightarrow> int \<Rightarrow> string option" where
  "peer_clause db user_id book_id =
     map_option (\<lambda>rating. ''Readers with similar taste rated this '' @ str_int rating @ star)
       (first_high_rating db book_id (take 5 (find_similar_users db user_id MIN_SIMILARITY_THRESHOLD)))"

definition rating_clause :: "database \<Rightarrow> int \<Rightarrow> string option" where
  "rating_clause db book_id =
     (case get_average_book_rating db book_id of
        None \<Rightarrow> None
      | Some avg_rating \<Rightarrow>
          if 4 \<le> avg_rating
          then Some (''Highly rated by readers ('' @ str_float avg_rating @ star @ '' average)'')
          else None)"





text \<open>
  The round-robin order of the sources: the entries at index 0 of the sources that have one,
  in the order of the sources, then those at index 1, and so on up to an index bound;
  \<open>first_by_id\<close> keeps the first entry of each book id; \<open>interleaved n\<close> is the feed of
  the indices below \<open>n\<close>.
\<close>

definition column :: "nat \<Rightarrow> recommendation list list \<Rightarrow> recommendation list" where
  "column idx sources = map (\<lambda>source. source ! idx) (filter (\<lambda>source. idx < length source) sources)"

definition round_robin :: "nat \<Rightarrow> recommendation list list \<Rightarrow> recommendation list" where
  "round_robin n sources = concat (map (\<lambda>idx. column idx sources) [0..<n])"

fun first_by_id :: "int set \<Rightarrow> recommendation list \<Rightarrow> recommendation list" where
  "first_by_id seen [] = []"
| "first_by_id seen (r # rs) =
     (if b_id (r_book r) \<in> seen then first_by_id seen rs
      else r # first_by_id (insert (b_id (r_book r)) seen) rs)"

definition interleaved :: "nat \<Rightarrow> recommendation list list \<Rightarrow> recommendation list" where
  "interleaved n sources = first_by_id {} (round_robin n sources)"

section \<open>Example data\<close>

definition mk_book :: "int \<Rightarrow> string \<Rightarrow> string list \<Rightarrow> book" where
  "mk_book i t gs =
     \<lparr> b_id = i, b_title = t, b_author = ''anon'', b_genres = gs, b_description = [],
       b_avg_rating = None \<rparr>"

definition ex_users :: "user list" where
  "ex_users =
    [\<lparr> u_id = 1, u_username = ''ann'', u_interests = [''Fantasy'', ''Mystery'', ''Science'', ''History''] \<rparr>,
     \<lparr> u_id = 2, u_username = ''bob'', u_interests = [''fantasy'', ''mystery'', ''science'', ''Poetry''] \<rparr>,
     \<lparr> u_id = 3, u_username = ''cy'', u_interests = [''Fantasy'', '' Mystery '', ''Drama''] \<rparr>,
     \<lparr> u_id = 7, u_username = ''new'', u_interests = [] \<rparr>]"

definition ex_books :: "book list" where
  "ex_books =
    [mk_book 11 ''Y'' [''Mystery'', ''Drama''], mk_book 10 ''X'' [''Fantasy''],
     mk_book 12 ''Z'' [''Science'', ''History'']]"

definition ex_items :: "rated_item list" where
  "ex_items =
    [\<lparr> i_id = 10, i_title = ''X'', i_author = ''anon'', i_genres = [''Fantasy''], i_description = [],
       i_rating = 5, i_rated_by_user_id = 3 \<rparr>,
     \<lparr> i_id = 10, i_title = ''X'', i_author = ''anon'', i_genres = [''Fantasy''], i_description = [],
       i_rating = 4, i_rated_by_user_id = 2 \<rparr>]"

definition ex_popular :: "(book \<times> int) list" where
  "ex_popular =
    [(mk_book 10 ''X'' [''Fantasy''], 2), (mk_book 12 ''Z'' [''Science'', ''History''], 1),
     (mk_book 11 ''Y'' [''Mystery'', ''Drama''], 0)]"

text \<open>
  Ann (user 1) has rated book 12; Bob (user 2) and Cy (user 3) share three and two of her
  four interests and have rated book 10 with 4 and 5; user 7 has no interests and no rating.
\<close>

definition ex_db :: database where
  "ex_db = \<lparr>
     get_user_by_id = (\<lambda>i. find (\<lambda>u. u_id u = i) ex_users),
     get_all_users = ex_users,
     get_book_by_id = (\<lambda>i. find (\<lambda>b. b_id b = i) ex_books),
     get_all_books = ex_books,
     get_recent_books = (\<lambda>n. take (nat n) ex_books),
     get_user_rating = (\<lambda>u b. if u = 3 \<and> b = 10 then Some 5 else if u = 2 \<and> b = 10 then Some 4
                               else if u = 1 \<and> b = 12 then Some 3 else None),
     get_average_book_rating = (\<lambda>b. if b = 10 then Some (9 / 2) else if b = 12 then Some 3 else None),
     get_popular_books = (\<lambda>n. take (nat n) ex_popular),
     get_rated_book_ids = (\<lambda>u. if u = 1 then [12] else if u = 2 \<or> u = 3 then [10] else []),
     high_rated_rows =
       (\<lambda>ids m. filter (\<lambda>it. i_rated_by_user_id it \<in> set ids \<and> m \<le> i_rating it) ex_items) \<rparr>"

text \<open>
  A user whose one interest is stored with a leading blank, and a book of that genre.
\<close>

definition blank_db :: database where
  "blank_db = \<lparr>
     get_user_by_id = (\<lambda>i. if i = 1 then Some \<lparr> u_id = 1, u_username = ''dee'', u_interests = ['' Fantasy''] \<rparr>
                            else None),
     get_all_users = [\<lparr> u_id = 1, u_username = ''dee'', u_interests = ['' Fantasy''] \<rparr>],
     get_book_by_id = (\<lambda>i. if i = 10 then Some (mk_book 10 ''X'' [''Fantasy'']) else None),
     get_all_books = [mk_book 10 ''X'' [''Fantasy'']],
     get_recent_books = (\<lambda>n. take (nat n) [mk_book 10 ''X'' [''Fantasy'']]),
     get_user_rating = (\<lambda>u b. None),
     get_average_book_rating = (\<lambda>b. None),
     get_popular_books = (\<lambda>n. take (nat n) [(mk_book 10 ''X'' [''Fantasy''], 0)]),
     get_rated_book_ids = (\<lambda>u. []),
     high_rated_rows = (\<lambda>ids m. []) \<rparr>"






section \<open>Slices, sorting and the loops\<close>

lemma slice_to_take: "\<exists>k. slice_to n xs = take k xs"
  by (auto simp: slice_to_def)

lemma set_slice_to: "set (slice_to n xs) \<subseteq> set xs"
  by (auto simp: slice_to_def dest: in_set_takeD)

lemma length_slice_to: "0 \<le> n \<Longrightarrow> int (length (slice_to n xs)) \<le> n"
  by (simp add: slice_to_def)

lemma sorted_wrt_slice_to: "sorted_wrt P xs \<Longrightarrow> sorted_wrt P (slice_to n xs)"
  by (simp add: slice_to_def)

lemma set_sort_desc: "set (sort_desc key xs) = set xs"
  by (simp add: sort_desc_def)

lemma length_sort_desc: "length (sort_desc key xs) = length xs"
  by (simp add: sort_desc_def)

lemma sorted_sort_desc: "sorted_wrt (\<ge>) (map key (sort_desc key xs))"
proof -
  have "sorted (map (\<lambda>x. - key x) (sort_key (\<lambda>x. - key x) xs))"
    by (rule sorted_sort_key)
  then show ?thesis
    by (simp add: sort_desc_def sorted_wrt_map)
qed

lemma in_slice_sortD: "r \<in> set (slice_to n (sort_desc key xs)) \<Longrightarrow> r \<in> set xs"
  using set_slice_to [of n "sort_desc key xs"] by (auto simp: set_sort_desc)

lemma set_map_filter: "set (List.map_filter f xs) = {y. \<exists>x\<in>set xs. f x = Some y}"
  by (induction xs) (auto split: option.splits)

lemma content_candidate_Some:
  "content_candidate db ui rated book = Some r \<Longrightarrow>
     b_id (r_book r) = b_id book \<and> b_id book \<notin> rated \<and> r_recommendation_type r = ''content_based''
     \<and> r_score r = py_round (calculate_genre_overlap ui (b_genres book)) 3
     \<and> MIN_SIMILARITY_THRESHOLD \<le> calculate_genre_overlap ui (b_genres book)
     \<and> r_reason r = content_reason ui (b_genres book)"
  by (auto simp: content_candidate_def Let_def split: if_splits)

lemma content_not_rated:
  "r \<in> set (get_content_based_recommendations db user_id limit) \<Longrightarrow>
     b_id (r_book r) \<notin> set (get_rated_book_ids db user_id)"
proof -
  assume r: "r \<in> set (get_content_based_recommendations db user_id limit)"
  show ?thesis
  proof (cases "get_user_by_id db user_id")
    case None
    with r show ?thesis by (simp add: get_content_based_recommendations_def)
  next
    case (Some user)
    show ?thesis
    proof (cases "u_interests user = []")
      case True
      with r Some show ?thesis by (simp add: get_content_based_recommendations_def)
    next
      case False
      with r Some have "r \<in> set (List.map_filter
          (content_candidate db (u_interests user) (set (get_rated_book_ids db user_id))) (get_all_books db))"
        by (auto simp: get_content_based_recommendations_def Let_def dest: in_slice_sortD)
      then obtain book where "content_candidate db (u_interests user) (set (get_rated_book_ids db user_id)) book = Some r"
        by (auto simp: set_map_filter)
      from content_candidate_Some [OF this] show ?thesis by simp
    qed
  qed
qed

lemma score_item_ok:
  "entries_ok rated bs \<Longrightarrow> entries_ok rated (score_item sims rated item bs)"
proof -
  assume ok: "entries_ok rated bs"
  have upd: "list_all P (AList.update k v al)" if "list_all P al" "P (k, v)" for P and k :: int and v :: score_entry and al
    using that by (induction al) auto
  show ?thesis
  proof (cases "i_id item \<in> rated")
    case True
    with ok show ?thesis by (simp add: score_item_def)
  next
    case False
    with ok show ?thesis
      unfolding score_item_def Let_def entries_ok_def
      by (auto intro!: upd)
  qed
qed

lemma fold_score_item_ok:
  "entries_ok rated bs \<Longrightarrow> entries_ok rated (fold (score_item sims rated) items bs)"
  by (induction items arbitrary: bs) (auto intro: score_item_ok)

lemma build_recommendations_ok:
  "entries_ok rated bs \<Longrightarrow>
     \<exists>recs. build_recommendations db mp bs = Inr recs \<and>
            map (\<lambda>r. b_id (r_book r)) recs = map fst bs \<and>
            map r_score recs = map (\<lambda>(k, e). py_round (normalized_score_of (e_score e) mp) 3) bs"
proof (induction bs)
  case Nil
  then show ?case by simp
next
  case (Cons p bs)
  obtain k e where p: "p = (k, e)" by (cases p)
  from Cons.prems p obtain book where b: "e_book e = Some book" "b_id book = k" "e_contributors e \<noteq> []" "k \<notin> rated"
    by (auto simp: entries_ok_def split: option.splits)
  from Cons.prems have "entries_ok rated bs" by (simp add: entries_ok_def)
  from Cons.IH [OF this] obtain recs where recs: "build_recommendations db mp bs = Inr recs"
     "map (\<lambda>r. b_id (r_book r)) recs = map fst bs"
     "map r_score recs = map (\<lambda>(k, e). py_round (normalized_score_of (e_score e) mp) 3) bs" by blast
  with p b show ?case by (simp add: Let_def)
qed

lemma collaborative_unfold:
  "get_collaborative_recommendations db user_id limit =
     (if peers_of db user_id = [] \<or> peer_items db user_id = [] then Inr []
      else case build_recommendations db (max_possible_of db user_id) (book_scores_of db user_id) of
             Inl e \<Rightarrow> Inl e
           | Inr recs \<Rightarrow> Inr (slice_to limit (sort_desc r_score recs)))"
  by (simp add: get_collaborative_recommendations_def peers_of_def peer_items_def
      max_possible_of_def book_scores_of_def Let_def)

lemma book_scores_ok: "entries_ok (set (get_rated_book_ids db user_id)) (book_scores_of db user_id)"
  unfolding book_scores_of_def
  by (rule fold_score_item_ok) (simp add: entries_ok_def)

lemma build_book_scores:
  "\<exists>recs. build_recommendations db (max_possible_of db user_id) (book_scores_of db user_id) = Inr recs \<and>
          map (\<lambda>r. b_id (r_book r)) recs = map fst (book_scores_of db user_id) \<and>
          map r_score recs =
            map (\<lambda>(k, e). py_round (normalized_score_of (e_score e) (max_possible_of db user_id)) 3)
              (book_scores_of db user_id)"
  by (rule build_recommendations_ok [OF book_scores_ok])

lemma collaborative_total:
  "\<exists>recs. get_collaborative_recommendations db user_id limit = Inr recs"
  using build_book_scores [of db user_id]
  by (auto simp: collaborative_unfold)

lemma collaborative_not_rated:
  assumes "get_collaborative_recommendations db user_id limit = Inr recs" "r \<in> set recs"
  shows "b_id (r_book r) \<notin> set (get_rated_book_ids db user_id)"
proof (cases "peers_of db user_id = [] \<or> peer_items db user_id = []")
  case True
  with assms show ?thesis by (auto simp: collaborative_unfold)
next
  case False
  from build_book_scores [of db user_id]
  obtain rs where rs: "build_recommendations db (max_possible_of db user_id) (book_scores_of db user_id) = Inr rs"
    "map (\<lambda>r. b_id (r_book r)) rs = map fst (book_scores_of db user_id)" by blast
  with False assms have "r \<in> set rs"
    by (auto simp: collaborative_unfold dest: in_slice_sortD)
  then have "b_id (r_book r) \<in> set (map (\<lambda>r. b_id (r_book r)) rs)" by simp
  with rs have "b_id (r_book r) \<in> fst ` set (book_scores_of db user_id)" by simp
  with book_scores_ok [of db user_id] show ?thesis
    by (auto simp: entries_ok_def list_all_iff)
qed

lemma add_popular_eq:
  "add_popular rated popular recs =
     recs @ map popular_rec (filter (\<lambda>row. b_id (fst row) \<notin> rated) popular)"
  by (induction popular arbitrary: recs) (auto simp: popular_rec_def)

lemma add_recent_eq:
  "add_recent rated recent recs =
     recs @ map recent_rec (new_recent rated (set (book_ids recs)) recent)"
proof (induction recent arbitrary: recs)
  case Nil
  then show ?case by simp
next
  case (Cons book recent)
  have ex: "list_ex (\<lambda>r. b_id (r_book r) = b_id book) recs \<longleftrightarrow> b_id book \<in> set (book_ids recs)"
    by (force simp: list_ex_iff book_ids_def)
  show ?case
    by (simp add: Cons.IH ex) (simp add: book_ids_def recent_rec_def)
qed

lemma new_recent_ids:
  "b \<in> set (new_recent rated present recent) \<Longrightarrow>
     b \<in> set recent \<and> b_id b \<notin> rated \<and> b_id b \<notin> present"
  by (induction recent arbitrary: present) (auto split: if_splits)

lemma fallback_unfold:
  "get_fallback_recommendations db user_id limit =
     (let rated = set (get_rated_book_ids db user_id);
          popular_part = map popular_rec (filter (\<lambda>row. b_id (fst row) \<notin> rated) (get_popular_books db limit));
          recent_part = map recent_rec (new_recent rated (set (book_ids popular_part)) (get_recent_books db limit))
      in slice_to limit (if int (length popular_part) < limit then popular_part @ recent_part else popular_part))"
  by (simp add: get_fallback_recommendations_def Let_def add_popular_eq add_recent_eq)

lemma fallback_not_rated:
  assumes "r \<in> set (get_fallback_recommendations db user_id limit)"
  shows "b_id (r_book r) \<notin> set (get_rated_book_ids db user_id)"
proof -
  let ?rated = "set (get_rated_book_ids db user_id)"
  let ?pop = "map popular_rec (filter (\<lambda>row. b_id (fst row) \<notin> ?rated) (get_popular_books db limit))"
  let ?rec = "map recent_rec (new_recent ?rated (set (book_ids ?pop)) (get_recent_books db limit))"
  from assms have "r \<in> set (slice_to limit (if int (length ?pop) < limit then ?pop @ ?rec else ?pop))"
    by (simp add: fallback_unfold Let_def)
  then have "r \<in> set (if int (length ?pop) < limit then ?pop @ ?rec else ?pop)"
    by (rule subsetD [OF set_slice_to])
  then have "r \<in> set ?pop \<or> r \<in> set ?rec"
    by (simp split: if_splits)
  then show ?thesis
  proof
    assume "r \<in> set ?pop"
    then show ?thesis by (auto simp: popular_rec_def)
  next
    assume "r \<in> set ?rec"
    then obtain b where "b \<in> set (new_recent ?rated (set (book_ids ?pop)) (get_recent_books db limit))"
      "r = recent_rec b" by auto
    then show ?thesis using new_recent_ids [of b ?rated] by (auto simp: recent_rec_def)
  qed
qed

lemma sorted_const_scores:
  "(\<And>r. r \<in> set xs \<Longrightarrow> r_score r = c) \<Longrightarrow> sorted_wrt (\<lambda>x y. r_score y \<le> r_score x) xs"
  by (induction xs) auto

lemma sorted_scores_append:
  assumes "\<And>r. r \<in> set xs \<Longrightarrow> r_score r = 1 / 2" "\<And>r. r \<in> set ys \<Longrightarrow> r_score r = 3 / 10"
  shows "sorted_wrt (\<ge>) (map r_score (xs @ ys))"
proof -
  have "sorted_wrt (\<lambda>x y. r_score y \<le> r_score x) xs"
    by (rule sorted_const_scores [where c = "1 / 2"]) (rule assms(1))
  moreover have "sorted_wrt (\<lambda>x y. r_score y \<le> r_score x) ys"
    by (rule sorted_const_scores [where c = "3 / 10"]) (rule assms(2))
  moreover have "\<forall>x\<in>set xs. \<forall>y\<in>set ys. r_score y \<le> r_score x"
  proof (intro ballI)
    fix x y
    assume "x \<in> set xs" "y \<in> set ys"
    then have "r_score x = 1 / 2" "r_score y = 3 / 10"
      by (auto dest: assms)
    then show "r_score y \<le> r_score x" by simp
  qed
  ultimately show ?thesis
    by (simp add: sorted_wrt_map sorted_wrt_append)
qed

lemma fallback_sorted:
  "sorted_wrt (\<ge>) (map r_score (get_fallback_recommendations db user_id limit))"
proof -
  let ?rated = "set (get_rated_book_ids db user_id)"
  let ?pop = "map popular_rec (filter (\<lambda>row. b_id (fst row) \<notin> ?rated) (get_popular_books db limit))"
  let ?rec = "map recent_rec (new_recent ?rated (set (book_ids ?pop)) (get_recent_books db limit))"
  have a: "sorted_wrt (\<ge>) (map r_score (?pop @ ?rec))"
    by (rule sorted_scores_append) (auto simp: popular_rec_def recent_rec_def)
  have "sorted_wrt (\<ge>) (map r_score (?pop @ []))"
    by (rule sorted_scores_append) (auto simp: popular_rec_def)
  then have b: "sorted_wrt (\<ge>) (map r_score ?pop)" by simp
  from a b have "sorted_wrt (\<ge>) (map r_score (if int (length ?pop) < limit then ?pop @ ?rec else ?pop))"
    by simp
  then have "sorted_wrt (\<lambda>x y. r_score x \<ge> r_score y) (if int (length ?pop) < limit then ?pop @ ?rec else ?pop)"
    by (simp only: sorted_wrt_map)
  then have "sorted_wrt (\<lambda>x y. r_score x \<ge> r_score y) (slice_to limit (if int (length ?pop) < limit then ?pop @ ?rec else ?pop))"
    by (rule sorted_wrt_slice_to)
  then show ?thesis
    by (simp only: fallback_unfold Let_def sorted_wrt_map)
qed

lemma content_no_interests:
  "get_user_by_id db user_id = Some u \<Longrightarrow> u_interests u = [] \<Longrightarrow>
     get_content_based_recommendations db user_id limit = []"
  by (simp add: get_content_based_recommendations_def)

lemma peers_no_interests:
  "get_user_by_id db user_id = Some u \<Longrightarrow> u_interests u = [] \<Longrightarrow>
     find_similar_users db user_id thr = []"
  by (simp add: find_similar_users_def normalize_genres_def)

lemma collaborative_no_peers:
  "find_similar_users db user_id MIN_SIMILARITY_THRESHOLD = [] \<Longrightarrow>
     get_collaborative_recommendations db user_id limit = Inr []"
  by (simp add: get_collaborative_recommendations_def)

lemma content_sorted: "sorted_wrt (\<ge>) (map r_score (get_content_based_recommendations db user_id limit))"
proof -
  have "sorted_wrt (\<ge>) (map r_score (slice_to limit (sort_desc r_score xs)))" for xs :: "recommendation list"
    using sorted_wrt_slice_to [of "\<lambda>x y. r_score y \<le> r_score x" "sort_desc r_score xs" limit]
      sorted_sort_desc [of r_score xs]
    by (simp add: sorted_wrt_map)
  then show ?thesis
    by (auto simp: get_content_based_recommendations_def Let_def split: option.splits)
qed

lemma collaborative_sorted:
  "get_collaborative_recommendations db user_id limit = Inr recs \<Longrightarrow> sorted_wrt (\<ge>) (map r_score recs)"
proof -
  have "sorted_wrt (\<ge>) (map r_score (slice_to limit (sort_desc r_score xs)))" for xs :: "recommendation list"
    using sorted_wrt_slice_to [of "\<lambda>x y. r_score y \<le> r_score x" "sort_desc r_score xs" limit]
      sorted_sort_desc [of r_score xs]
    by (simp add: sorted_wrt_map)
  then show "get_collaborative_recommendations db user_id limit = Inr recs \<Longrightarrow> ?thesis"
    by (auto simp: collaborative_unfold split: if_splits sum.splits)
qed

lemma content_length: "0 \<le> limit \<Longrightarrow> int (length (get_content_based_recommendations db user_id limit)) \<le> limit"
  by (auto simp: get_content_based_recommendations_def Let_def length_slice_to split: option.splits)

lemma collaborative_length:
  "0 \<le> limit \<Longrightarrow> get_collaborative_recommendations db user_id limit = Inr recs \<Longrightarrow> int (length recs) \<le> limit"
  by (auto simp: collaborative_unfold length_slice_to split: if_splits sum.splits)

lemma fallback_length: "0 \<le> limit \<Longrightarrow> int (length (get_fallback_recommendations db user_id limit)) \<le> limit"
  by (simp add: fallback_unfold Let_def length_slice_to del: slice_to_def)

lemma recommendations_unfold:
  "get_collaborative_recommendations db user_id limit = Inr collab \<Longrightarrow>
   get_recommendations db user_id limit =
     Inr \<lparr> content_based = get_content_based_recommendations db user_id limit,
           collaborative = collab,
           fallback = (if get_content_based_recommendations db user_id limit = [] \<and> collab = []
                       then get_fallback_recommendations db user_id limit else []) \<rparr>"
  by (simp add: get_recommendations_def Let_def)

lemma char_lower_space: "is_space c \<Longrightarrow> char_lower c = c"
  by (auto simp: is_space_def char_lower_def Let_def)

lemma str_lower_spaces: "list_all is_space w \<Longrightarrow> str_lower w = w"
  by (induction w) (auto simp: str_lower_def char_lower_space)

lemma str_lower_append: "str_lower (a @ b) = str_lower a @ str_lower b"
  by (simp add: str_lower_def)

lemma dropWhile_spaces: "list_all is_space w \<Longrightarrow> dropWhile is_space w = []"
  by (induction w) auto

lemma str_strip_spaces: "list_all is_space w \<Longrightarrow> str_strip w = []"
  by (simp add: str_strip_def dropWhile_spaces)

lemma str_strip_pad:
  assumes "list_all is_space w1" "list_all is_space w2"
  shows "str_strip (w1 @ s @ w2) = str_strip s"
proof -
  have d1: "dropWhile is_space (w1 @ s @ w2) = dropWhile is_space (s @ w2)"
    using assms(1) by (simp add: dropWhile_append2 list_all_iff)
  show ?thesis
  proof (cases "list_all is_space s")
    case True
    then have "list_all is_space (s @ w2)" using assms(2) by simp
    then have "dropWhile is_space (s @ w2) = []" by (rule dropWhile_spaces)
    with d1 have "str_strip (w1 @ s @ w2) = []" by (simp only: str_strip_def) simp
    with str_strip_spaces [OF True] show ?thesis by simp
  next
    case False
    then obtain x where x: "x \<in> set s" "\<not> is_space x" by (auto simp: list_all_iff)
    then have d2: "dropWhile is_space (s @ w2) = dropWhile is_space s @ w2"
      by (simp add: dropWhile_append1)
    have "dropWhile is_space (rev w2 @ rev (dropWhile is_space s)) = dropWhile is_space (rev (dropWhile is_space s))"
      using assms(2) by (intro dropWhile_append2) (simp add: list_all_iff)
    with d1 d2 show ?thesis by (simp add: str_strip_def)
  qed
qed

lemma label_variant_norm:
  assumes "label_variant g h"
  shows "h \<noteq> [] \<and> str_strip (str_lower h) = str_strip (str_lower g)"
proof -
  from assms obtain w1 w2 g' where h: "h = w1 @ g' @ w2" "list_all is_space w1" "list_all is_space w2"
    "str_lower g' = str_lower g" "g \<noteq> []"
    by (auto simp: label_variant_def)
  from h(4,5) have "g' \<noteq> []" by (auto simp: str_lower_def)
  with h(1) have "h \<noteq> []" by simp
  moreover have "str_lower h = w1 @ str_lower g @ w2"
    using h by (simp add: str_lower_append str_lower_spaces)
  ultimately show ?thesis using h(2,3) by (simp add: str_strip_pad)
qed

lemma normalize_variants:
  assumes "list_all2 label_variant xs xs'"
  shows "normalize_genres xs' = normalize_genres xs"
proof -
  from assms have f: "filter (\<lambda>g. g \<noteq> []) xs = xs \<and> filter (\<lambda>g. g \<noteq> []) xs' = xs'
      \<and> map (\<lambda>g. str_strip (str_lower g)) xs' = map (\<lambda>g. str_strip (str_lower g)) xs"
  proof (induction rule: list_all2_induct)
    case Nil
    then show ?case by simp
  next
    case (Cons x xs y ys)
    from label_variant_norm [OF Cons.hyps(1)] Cons.hyps(1) Cons.IH show ?case
      by (simp add: label_variant_def)
  qed
  moreover from assms have "xs = [] \<longleftrightarrow> xs' = []" by (auto dest: list_all2_lengthD)
  ultimately show ?thesis by (simp add: normalize_genres_def)
qed

lemma jaccard_set:
  "jaccard_similarity (set as) (set bs) =
     (if set as \<union> set bs = {} then 0
      else of_nat (card (set as \<inter> set bs)) / of_nat (card (set as \<union> set bs)))"
  by (auto simp: jaccard_similarity_def Let_def)

lemma str_join_nonempty: "xs \<noteq> [] \<Longrightarrow> hd xs \<noteq> [] \<Longrightarrow> str_join sep xs \<noteq> []"
  by (induction sep xs rule: str_join.induct) auto

lemma slice_to_5: "slice_to 5 xs = take 5 xs"
  by (simp add: slice_to_def)

lemma explain_unfold:
  assumes "get_user_by_id db user_id = Some user" "get_book_by_id db book_id = Some book"
  shows "explain_recommendation db user_id book_id =
           (let clauses = List.map_filter id
                  [genre_clause user book, peer_clause db user_id book_id, rating_clause db book_id]
            in Some (if clauses = [] then ''Based on your reading preferences''
                     else str_join bullet_sep clauses))"
proof -
  have r: "(a \<noteq> 0 \<and> 4 \<le> a) = (4 \<le> a)" for a :: rat by auto
  show ?thesis
    using assms
    by (cases "first_high_rating db book_id (take 5 (find_similar_users db user_id MIN_SIMILARITY_THRESHOLD))";
        cases "get_average_book_rating db book_id")
       (simp_all add: explain_recommendation_def genre_clause_def peer_clause_def rating_clause_def
          Let_def slice_to_5 List.map_filter_simps r)
qed

lemma clause_nonempty:
  "genre_clause user book = Some s \<Longrightarrow> s \<noteq> []"
  "peer_clause db user_id book_id = Some s \<Longrightarrow> s \<noteq> []"
  "rating_clause db book_id = Some s \<Longrightarrow> s \<noteq> []"
  by (auto simp: genre_clause_def peer_clause_def rating_clause_def Let_def
      split: if_splits option.splits)

lemma jaccard_threshold_overlap:
  "MIN_SIMILARITY_THRESHOLD \<le> jaccard_similarity A B \<Longrightarrow> A \<inter> B \<noteq> {}"
  by (auto simp: jaccard_similarity_def MIN_SIMILARITY_THRESHOLD_def Let_def split: if_splits)

text \<open>
  When no label carries surrounding whitespace, a score at the threshold or above gives a
  reason that names between one and three genres of the book that the user's interests share.
\<close>

lemma content_reason_names_overlap:
  assumes trimmed: "\<forall>g \<in> set user_interests \<union> set book_genres. str_strip (str_lower g) = str_lower g"
    and score: "MIN_SIMILARITY_THRESHOLD \<le> calculate_genre_overlap user_interests book_genres"
  shows "\<exists>named. named \<noteq> [] \<and> length named \<le> 3 \<and> set named \<subseteq> set book_genres \<and>
           (\<forall>g \<in> set named. str_lower g \<in> str_lower ` set user_interests) \<and>
           content_reason user_interests book_genres =
             ''Matches your interest in '' @ str_join '', '' named"
proof -
  let ?matching = "set (map str_lower user_interests) \<inter> set (map str_lower book_genres)"
  let ?list = "filter (\<lambda>g. str_lower g \<in> ?matching) book_genres"
  from score have "normalize_genres user_interests \<inter> normalize_genres book_genres \<noteq> {}"
    by (simp add: calculate_genre_overlap_def jaccard_threshold_overlap)
  then obtain x where x: "x \<in> normalize_genres user_interests" "x \<in> normalize_genres book_genres"
    by blast
  from x(1) obtain u where u: "u \<in> set user_interests" "x = str_strip (str_lower u)"
    by (auto simp: normalize_genres_def split: if_splits)
  from x(2) obtain g where g: "g \<in> set book_genres" "x = str_strip (str_lower g)"
    by (auto simp: normalize_genres_def split: if_splits)
  from u g trimmed have eq: "str_lower g = str_lower u" by auto
  have "str_lower g \<in> str_lower ` set book_genres" using g(1) by (rule imageI)
  moreover have "str_lower u \<in> str_lower ` set user_interests" using u(1) by (rule imageI)
  ultimately have "str_lower g \<in> ?matching" using eq by simp
  with g have ne: "?list \<noteq> []" by (auto simp: filter_empty_conv)
  have sub: "set (take 3 ?list) \<subseteq> set ?list" by (rule set_take_subset)
  have "take 3 ?list \<noteq> []" using ne by (cases ?list) auto
  moreover have "length (take 3 ?list) \<le> 3" by simp
  moreover have "set (take 3 ?list) \<subseteq> set book_genres" using sub by auto
  moreover have "\<forall>g \<in> set (take 3 ?list). str_lower g \<in> str_lower ` set user_interests"
    using sub by auto
  moreover have "content_reason user_interests book_genres =
      ''Matches your interest in '' @ str_join '', '' (take 3 ?list)"
    using ne by (simp add: content_reason_def Let_def)
  ultimately show ?thesis by blast
qed














lemma first_by_id_ids:
  "set (book_ids (first_by_id seen xs)) = set (book_ids xs) - seen"
  by (induction xs arbitrary: seen) (auto simp: book_ids_def)

lemma first_by_id_distinct: "distinct (book_ids (first_by_id seen xs))"
proof (induction xs arbitrary: seen)
  case Nil
  then show ?case by (simp add: book_ids_def)
next
  case (Cons r rs)
  have "b_id (r_book r) \<notin> set (book_ids (first_by_id (insert (b_id (r_book r)) seen) rs))"
    by (simp add: first_by_id_ids)
  with Cons.IH show ?case by (simp add: book_ids_def)
qed

lemma first_by_id_append:
  "first_by_id seen (xs @ ys) = first_by_id seen xs @ first_by_id (seen \<union> set (book_ids xs)) ys"
proof (induction xs arbitrary: seen)
  case Nil
  then show ?case by (simp add: book_ids_def)
next
  case (Cons r rs)
  have "insert (b_id (r_book r)) (seen \<union> set (book_ids rs)) = seen \<union> set (book_ids rs)"
    if "b_id (r_book r) \<in> seen"
    using that by auto
  then show ?case by (simp add: Cons.IH book_ids_def)
qed

lemma column_Cons:
  "column idx (source # sources) = (if idx < length source then [source ! idx] else []) @ column idx sources"
  by (simp add: column_def)

lemma feed_pass_eq:
  "feed_pass idx sources (feed, seen, added) =
     (feed @ first_by_id seen (column idx sources),
      seen \<union> set (book_ids (first_by_id seen (column idx sources))),
      added \<or> first_by_id seen (column idx sources) \<noteq> [])"
proof (induction sources arbitrary: feed seen added)
  case Nil
  then show ?case by (simp add: column_def book_ids_def)
next
  case (Cons source sources)
  show ?case
    by (simp add: Cons.IH column_Cons Let_def book_ids_def)
qed

lemma interleaved_Suc:
  "interleaved (Suc n) sources =
     interleaved n sources @ first_by_id (set (book_ids (interleaved n sources))) (column n sources)"
proof -
  have "set (book_ids (interleaved n sources)) = set (book_ids (round_robin n sources))"
    by (simp add: interleaved_def first_by_id_ids)
  then show ?thesis
    by (simp add: interleaved_def round_robin_def first_by_id_append)
qed

lemma feed_loop_interleaved:
  assumes "feed = interleaved idx sources" "seen = set (book_ids feed)"
  shows "\<exists>k\<ge>idx. feed_loop limit sources idx feed seen = interleaved k sources \<and>
           (limit \<le> int (length (interleaved k sources)) \<or>
            interleaved (Suc k) sources = interleaved k sources) \<and>
           (\<forall>j. idx \<le> j \<and> j < k \<longrightarrow>
              int (length (interleaved j sources)) < limit \<and>
              interleaved (Suc j) sources \<noteq> interleaved j sources)"
  using assms
proof (induction limit sources idx feed seen rule: feed_loop.induct)
  case (1 limit sources idx feed seen)
  let ?new = "first_by_id seen (column idx sources)"
  have pass: "feed_pass idx sources (feed, seen, False) = (feed @ ?new, seen \<union> set (book_ids ?new), ?new \<noteq> [])"
    by (simp add: feed_pass_eq)
  have nxt: "interleaved (Suc idx) sources = feed @ ?new"
    using "1.prems" by (simp add: interleaved_Suc)
  show ?case
  proof (cases "int (length feed) < limit")
    case False
    then have "feed_loop limit sources idx feed seen = feed"
      by (subst feed_loop.simps) simp
    with False "1.prems" show ?thesis
      by (intro exI [of _ idx]) auto
  next
    case True
    show ?thesis
    proof (cases "?new = []")
      case e: True
      from True e pass have "feed_loop limit sources idx feed seen = feed"
        by (subst feed_loop.simps) simp
      with e nxt "1.prems" show ?thesis
        by (intro exI [of _ idx]) auto
    next
      case ne: False
      from True ne pass have loop: "feed_loop limit sources idx feed seen =
          feed_loop limit sources (idx + 1) (feed @ ?new) (seen \<union> set (book_ids ?new))"
        by (subst feed_loop.simps) simp
      have s: "seen \<union> set (book_ids ?new) = set (book_ids (feed @ ?new))"
        using "1.prems" by (simp add: book_ids_def)
      have "\<exists>k\<ge>idx + 1.
          feed_loop limit sources (idx + 1) (feed @ ?new) (seen \<union> set (book_ids ?new)) = interleaved k sources \<and>
          (limit \<le> int (length (interleaved k sources)) \<or> interleaved (Suc k) sources = interleaved k sources) \<and>
          (\<forall>j. idx + 1 \<le> j \<and> j < k \<longrightarrow>
              int (length (interleaved j sources)) < limit \<and>
              interleaved (Suc j) sources \<noteq> interleaved j sources)"
        by (rule "1.IH" [OF True pass [symmetric] refl]) (use ne nxt s in simp_all)
      then obtain k where k: "k \<ge> idx + 1"
        "feed_loop limit sources (idx + 1) (feed @ ?new) (seen \<union> set (book_ids ?new)) = interleaved k sources"
        "limit \<le> int (length (interleaved k sources)) \<or> interleaved (Suc k) sources = interleaved k sources"
        "\<forall>j. idx + 1 \<le> j \<and> j < k \<longrightarrow>
              int (length (interleaved j sources)) < limit \<and>
              interleaved (Suc j) sources \<noteq> interleaved j sources"
        by auto
      have "int (length (interleaved j sources)) < limit \<and>
              interleaved (Suc j) sources \<noteq> interleaved j sources" if "idx \<le> j" "j < k" for j
      proof (cases "j = idx")
        case True
        with \<open>int (length feed) < limit\<close> ne nxt "1.prems" show ?thesis by simp
      next
        case False
        with that k(4) show ?thesis by simp
      qed
      with k loop show ?thesis
        by (intro exI [of _ k]) auto
    qed
  qed
qed
lemma distinct_book_ids_slice:
  "distinct (book_ids xs) \<Longrightarrow> distinct (book_ids (slice_to n xs))"
proof -
  obtain k where k: "slice_to n xs = take k xs"
    using slice_to_take by blast
  assume "distinct (book_ids xs)"
  then have "distinct (take k (book_ids xs))" by (rule distinct_take)
  then show ?thesis by (simp add: k book_ids_def take_map)
qed



section \<open>Rated books are never recommended\<close>

text \<open>
  Claim C1. For every user, every limit and every book that the user has rated, the book is
  in none of the lists: the content-based engine, the collaborative engine and the fallback
  composer each skip the ids of \<open>get_rated_book_ids\<close>, and so do the three lists of
  \<open>get_recommendations\<close>. The collaborative engine and \<open>get_recommendations\<close> return
  (they never raise). The limit may be any integer, so also every non-negative one.
\<close>
theorem rated_books_never_recommended:
  assumes "book_id \<in> set (get_rated_book_ids db user_id)"
  shows "book_id \<notin> set (book_ids (get_content_based_recommendations db user_id limit)) \<and>
         (\<exists>recs. get_collaborative_recommendations db user_id limit = Inr recs \<and>
                 book_id \<notin> set (book_ids recs)) \<and>
         book_id \<notin> set (book_ids (get_fallback_recommendations db user_id limit)) \<and>
         (\<exists>r. get_recommendations db user_id limit = Inr r \<and>
              book_id \<notin> set (book_ids (content_based r)) \<and>
              book_id \<notin> set (book_ids (collaborative r)) \<and>
              book_id \<notin> set (book_ids (fallback r)))"
proof -
  have c: "book_id \<notin> set (book_ids (get_content_based_recommendations db user_id limit))"
    using assms content_not_rated [of _ db user_id limit] by (auto simp: book_ids_def)
  obtain collab where collab: "get_collaborative_recommendations db user_id limit = Inr collab"
    using collaborative_total by blast
  have k: "book_id \<notin> set (book_ids collab)"
    using assms collaborative_not_rated [OF collab] by (auto simp: book_ids_def)
  have f: "book_id \<notin> set (book_ids (get_fallback_recommendations db user_id limit))"
    using assms fallback_not_rated [of _ db user_id limit] by (auto simp: book_ids_def)
  have "book_id \<notin> set (book_ids [])" by (simp add: book_ids_def)
  with c k f collab show ?thesis
    by (simp add: recommendations_unfold [OF collab])
qed

theorem rated_books_never_recommended_witness:
  "12 \<in> set (get_rated_book_ids ex_db 1) \<and>
   12 \<notin> set (book_ids (get_content_based_recommendations ex_db 1 10)) \<and>
   (\<exists>r. get_recommendations ex_db 1 10 = Inr r \<and>
        12 \<notin> set (book_ids (content_based r)) \<and>
        12 \<notin> set (book_ids (collaborative r)) \<and>
        12 \<notin> set (book_ids (fallback r)))"
proof -
  have h: "12 \<in> set (get_rated_book_ids ex_db 1)"
    by (simp add: ex_db_def)
  from rated_books_never_recommended [OF h, of 10] h show ?thesis
    by blast
qed

section \<open>The three lists of get\_recommendations\<close>

text \<open>
  Claim C3. \<open>get_recommendations\<close> returns a result with the three lists
  \<open>content_based\<close>, \<open>collaborative\<close> and \<open>fallback\<close> (the fields of the record), the
  first two being what the two engines return; the fallback list is non-empty only when
  both other lists are empty, and it is empty whenever one of them is not.
\<close>
theorem fallback_only_when_both_empty:
  "\<exists>r. get_recommendations db user_id limit = Inr r \<and>
       content_based r = get_content_based_recommendations db user_id limit \<and>
       get_collaborative_recommendations db user_id limit = Inr (collaborative r) \<and>
       (fallback r \<noteq> [] \<longrightarrow> content_based r = [] \<and> collaborative r = []) \<and>
       (content_based r \<noteq> [] \<or> collaborative r \<noteq> [] \<longrightarrow> fallback r = [])"
proof -
  obtain collab where collab: "get_collaborative_recommendations db user_id limit = Inr collab"
    using collaborative_total by blast
  show ?thesis
    by (simp add: recommendations_unfold [OF collab] collab)
qed

theorem fallback_only_when_both_empty_witness:
  "(\<exists>r. get_recommendations ex_db 1 10 = Inr r \<and> content_based r \<noteq> [] \<and> fallback r = []) \<and>
   (\<exists>r. get_recommendations ex_db 7 3 = Inr r \<and> fallback r \<noteq> [] \<and>
        content_based r = [] \<and> collaborative r = [])"
proof -
  have a: "get_content_based_recommendations ex_db 1 10 \<noteq> []"
    by code_simp
  have b: "get_content_based_recommendations ex_db 7 3 = []" 
    by code_simp
  have c: "get_collaborative_recommendations ex_db 7 3 = Inr []"
    by code_simp
  have d: "get_fallback_recommendations ex_db 7 3 \<noteq> []"
    by code_simp
  from fallback_only_when_both_empty [of ex_db 1 10] a
  have 1: "\<exists>r. get_recommendations ex_db 1 10 = Inr r \<and> content_based r \<noteq> [] \<and> fallback r = []"
    by auto
  from fallback_only_when_both_empty [of ex_db 7 3] b c d
  have 2: "\<exists>r. get_recommendations ex_db 7 3 = Inr r \<and> fallback r \<noteq> [] \<and>
        content_based r = [] \<and> collaborative r = []"
    by (auto simp: get_recommendations_def)
  from 1 2 show ?thesis by blast
qed

section \<open>Length and order of the lists\<close>

text \<open>
  Claim C6. For every user and every non-negative limit, each of the three lists of
  \<open>get_recommendations\<close> has at most \<open>limit\<close> entries, and its scores do not increase
  from the first entry to the last.
\<close>
theorem lists_bounded_and_sorted:
  assumes "0 \<le> limit"
  shows "\<exists>r. get_recommendations db user_id limit = Inr r \<and>
           (\<forall>recs \<in> {content_based r, collaborative r, fallback r}.
               int (length recs) \<le> limit \<and> sorted_wrt (\<ge>) (map r_score recs))"
proof -
  obtain collab where collab: "get_collaborative_recommendations db user_id limit = Inr collab"
    using collaborative_total by blast
  from assms show ?thesis
    by (simp add: recommendations_unfold [OF collab] content_sorted content_length
        collaborative_sorted [OF collab] collaborative_length [OF _ collab]
        fallback_sorted fallback_length)
qed

theorem lists_bounded_and_sorted_witness:
  "(0::int) \<le> 10 \<and>
   (\<exists>r. get_recommendations ex_db 1 10 = Inr r \<and> map r_score (content_based r) = [1 / 4, 1 / 5] \<and>
      (\<forall>recs \<in> {content_based r, collaborative r, fallback r}.
          int (length recs) \<le> 10 \<and> sorted_wrt (\<ge>) (map r_score recs)))"
proof -
  have h: "(0::int) \<le> 10" by simp
  have c: "map r_score (content_based (projr (get_recommendations ex_db 1 10))) = [1 / 4, 1 / 5]"
    by code_simp
  from lists_bounded_and_sorted [OF h, of ex_db 1] obtain r where
    r: "get_recommendations ex_db 1 10 = Inr r"
       "\<forall>recs \<in> {content_based r, collaborative r, fallback r}.
          int (length recs) \<le> 10 \<and> sorted_wrt (\<ge>) (map r_score recs)"
    by blast
  from c r(1) have s: "map r_score (content_based r) = [1 / 4, 1 / 5]" by simp
  show ?thesis
    by (intro conjI exI [of _ r]) (rule h r s)+
qed

section \<open>Jaccard similarity and the normalisation of labels\<close>

text \<open>
  Claim C7, as stated, fails: \<open>jaccard_similarity\<close> does not normalise its arguments, so
  its result changes with the casing of a label.
\<close>

theorem jaccard_not_normalizing_counterexample:
  "jaccard_similarity {''A''} {''a''} = 0 \<and> jaccard_similarity {''a''} {''a''} = 1"
  by (simp add: jaccard_similarity_def)

text \<open>
  Claim C7, amended. \<open>jaccard_similarity\<close> computes the size of the intersection over
  the size of the union of its two sets as they are given, and returns 0 when the union is
  empty, which is when both sets are empty. The labels are normalised (lowered, trimmed,
  empty ones dropped) by \<open>calculate_genre_overlap\<close> before it calls
  \<open>jaccard_similarity\<close>; so it is the result of \<open>calculate_genre_overlap\<close> that is
  unchanged under casing and surrounding-whitespace variation of non-empty labels, and
  \<open>calculate_genre_overlap ["A"] ["a"] = 1\<close>.
\<close>

theorem jaccard_on_given_sets:
  "jaccard_similarity (set as) (set bs) =
     (if set as \<union> set bs = {} then 0
      else of_nat (card (set as \<inter> set bs)) / of_nat (card (set as \<union> set bs))) \<and>
   jaccard_similarity {} {} = 0 \<and>
   calculate_genre_overlap xs ys = jaccard_similarity (normalize_genres xs) (normalize_genres ys) \<and>
   (\<forall>xs' ys'. list_all2 label_variant xs xs' \<and> list_all2 label_variant ys ys' \<longrightarrow>
       calculate_genre_overlap xs' ys' = calculate_genre_overlap xs ys) \<and>
   calculate_genre_overlap [''A''] [''a''] = 1"
proof (intro conjI allI impI)
  show "jaccard_similarity (set as) (set bs) =
     (if set as \<union> set bs = {} then 0
      else of_nat (card (set as \<inter> set bs)) / of_nat (card (set as \<union> set bs)))"
    by (rule jaccard_set)
  show "jaccard_similarity {} {} = 0"
    by (simp add: jaccard_similarity_def)
  show "calculate_genre_overlap xs ys = jaccard_similarity (normalize_genres xs) (normalize_genres ys)"
    by (simp add: calculate_genre_overlap_def)
  show "calculate_genre_overlap [''A''] [''a''] = 1"
    by code_simp
next
  fix xs' ys'
  assume "list_all2 label_variant xs xs' \<and> list_all2 label_variant ys ys'"
  then have "normalize_genres xs' = normalize_genres xs" "normalize_genres ys' = normalize_genres ys"
    by (simp_all add: normalize_variants)
  then show "calculate_genre_overlap xs' ys' = calculate_genre_overlap xs ys"
    by (simp add: calculate_genre_overlap_def)
qed

theorem jaccard_on_given_sets_witness:
  "list_all2 label_variant [''Sci Fi'', ''Drama''] ['' SCI fi'', ''drama  ''] \<and>
   list_all2 label_variant [''Poetry'', ''drama''] [''poetry'', ''Drama''] \<and>
   calculate_genre_overlap ['' SCI fi'', ''drama  ''] [''poetry'', ''Drama''] =
     calculate_genre_overlap [''Sci Fi'', ''Drama''] [''Poetry'', ''drama''] \<and>
   calculate_genre_overlap [''Sci Fi'', ''Drama''] [''Poetry'', ''drama''] = 1 / 3"
proof -
  have lower: "str_lower ''SCI fi'' = str_lower ''Sci Fi''" "str_lower ''Drama'' = str_lower ''drama''"
    "str_lower ''poetry'' = str_lower ''Poetry''" "is_space CHR '' ''"
    by code_simp+
  have v1: "label_variant ''Sci Fi'' '' SCI fi''"
    unfolding label_variant_def
    by (intro conjI exI [of _ "'' ''"] exI [of _ "[]"] exI [of _ "''SCI fi''"])
       (simp_all add: lower)
  have v2: "label_variant ''Drama'' ''drama  ''"
    unfolding label_variant_def
    by (intro conjI exI [of _ "[]"] exI [of _ "''  ''"] exI [of _ "''drama''"])
       (simp_all add: lower)
  have v3: "label_variant ''Poetry'' ''poetry''"
    unfolding label_variant_def
    by (intro conjI exI [of _ "[]"] exI [of _ "[]"] exI [of _ "''poetry''"])
       (simp_all add: lower)
  have v4: "label_variant ''drama'' ''Drama''"
    unfolding label_variant_def
    by (intro conjI exI [of _ "[]"] exI [of _ "[]"] exI [of _ "''Drama''"])
       (simp_all add: lower)
  have a: "list_all2 label_variant [''Sci Fi'', ''Drama''] ['' SCI fi'', ''drama  '']"
    using v1 v2 by simp
  have b: "list_all2 label_variant [''Poetry'', ''drama''] [''poetry'', ''Drama'']"
    using v3 v4 by simp
  have e: "calculate_genre_overlap [''Sci Fi'', ''Drama''] [''Poetry'', ''drama''] = 1 / 3"
    by code_simp
  from jaccard_on_given_sets [of "[]" "[]" "[''Sci Fi'', ''Drama'']" "[''Poetry'', ''drama'']"] a b
  have "calculate_genre_overlap ['' SCI fi'', ''drama  ''] [''poetry'', ''Drama''] =
     calculate_genre_overlap [''Sci Fi'', ''Drama''] [''Poetry'', ''drama'']"
    by blast
  with a b e show ?thesis by blast
qed

section \<open>Explanations\<close>

text \<open>
  Claim C10. \<open>explain_recommendation\<close> returns \<open>None\<close> exactly when the lookup of the
  user or the lookup of the book fails. When both exist it returns a non-empty string: the
  clauses that apply (at most three, of the genre clause, the peer clause and the rating
  clause, in this order) joined by the bullet separator, or the sentence
  \<open>Based on your reading preferences\<close> when no clause applies.
\<close>

theorem explain_recommendation_result:
  "(explain_recommendation db user_id book_id = None \<longleftrightarrow>
      get_user_by_id db user_id = None \<or> get_book_by_id db book_id = None) \<and>
   (\<forall>user book. get_user_by_id db user_id = Some user \<and> get_book_by_id db book_id = Some book \<longrightarrow>
      (\<exists>s clauses. explain_recommendation db user_id book_id = Some s \<and> s \<noteq> [] \<and>
         clauses = List.map_filter id
           [genre_clause user book, peer_clause db user_id book_id, rating_clause db book_id] \<and>
         length clauses \<le> 3 \<and>
         s = (if clauses = [] then ''Based on your reading preferences''
              else str_join bullet_sep clauses)))"
proof (intro conjI allI impI)
  show "explain_recommendation db user_id book_id = None \<longleftrightarrow>
      get_user_by_id db user_id = None \<or> get_book_by_id db book_id = None"
    by (auto simp: explain_recommendation_def Let_def split: option.splits)
next
  fix user book
  assume "get_user_by_id db user_id = Some user \<and> get_book_by_id db book_id = Some book"
  then have ub: "get_user_by_id db user_id = Some user" "get_book_by_id db book_id = Some book"
    by simp_all
  let ?clauses = "List.map_filter id
           [genre_clause user book, peer_clause db user_id book_id, rating_clause db book_id]"
  let ?s = "if ?clauses = [] then ''Based on your reading preferences'' else str_join bullet_sep ?clauses"
  have e: "explain_recommendation db user_id book_id = Some ?s"
    by (simp add: explain_unfold [OF ub] Let_def)
  have len: "length ?clauses \<le> 3"
    by (simp add: List.map_filter_simps split: option.splits)
  have hd: "?clauses \<noteq> [] \<Longrightarrow> hd ?clauses \<noteq> []"
    by (auto simp: List.map_filter_simps clause_nonempty split: option.splits)
  have ne: "?s \<noteq> []"
    using hd by (auto simp: str_join_nonempty)
  from e len ne show "\<exists>s clauses. explain_recommendation db user_id book_id = Some s \<and> s \<noteq> [] \<and>
         clauses = ?clauses \<and> length clauses \<le> 3 \<and>
         s = (if clauses = [] then ''Based on your reading preferences''
              else str_join bullet_sep clauses)"
    by blast
qed

theorem explain_recommendation_result_witness:
  "get_user_by_id ex_db 1 \<noteq> None \<and> get_book_by_id ex_db 10 \<noteq> None \<and>
   explain_recommendation ex_db 1 10 =
     Some (''This book matches your interest in Fantasy'' @ bullet_sep @
           ''Readers with similar taste rated this 4'' @ star @ bullet_sep @
           ''Highly rated by readers (4.5'' @ star @ '' average)'') \<and>
   explain_recommendation ex_db 7 11 = Some ''Based on your reading preferences'' \<and>
   get_book_by_id ex_db 99 = None \<and> explain_recommendation ex_db 1 99 = None"
proof -
  have u: "get_user_by_id ex_db 1 = Some \<lparr> u_id = 1, u_username = ''ann'',
      u_interests = [''Fantasy'', ''Mystery'', ''Science'', ''History''] \<rparr>"
    by code_simp
  have b: "get_book_by_id ex_db 10 = Some (mk_book 10 ''X'' [''Fantasy''])"
    by code_simp
  have n: "get_book_by_id ex_db 99 = None"
    by code_simp
  have c: "List.map_filter id
      [genre_clause \<lparr> u_id = 1, u_username = ''ann'',
          u_interests = [''Fantasy'', ''Mystery'', ''Science'', ''History''] \<rparr> (mk_book 10 ''X'' [''Fantasy'']),
       peer_clause ex_db 1 10, rating_clause ex_db 10] =
      [''This book matches your interest in Fantasy'',
       ''Readers with similar taste rated this 4'' @ star,
       ''Highly rated by readers (4.5'' @ star @ '' average)'']"
    by code_simp
  have g: "explain_recommendation ex_db 7 11 = Some ''Based on your reading preferences''"
    by code_simp
  from explain_recommendation_result [of ex_db 1 10] u b c
  have 1: "explain_recommendation ex_db 1 10 =
     Some (''This book matches your interest in Fantasy'' @ bullet_sep @
           ''Readers with similar taste rated this 4'' @ star @ bullet_sep @
           ''Highly rated by readers (4.5'' @ star @ '' average)'')"
    by auto
  from explain_recommendation_result [of ex_db 1 99] n
  have 2: "explain_recommendation ex_db 1 99 = None"
    by blast
  from u b n g 1 2 show ?thesis by simp
qed

section \<open>The fallback list\<close>

text \<open>
  Claim C4. The fallback list starts with the popular books that the user has not rated,
  in the order in which \<open>get_popular_books\<close> ranks them, each with type \<open>fallback\<close>,
  score 0.5 and the reason \<open>Popular among readers\<close>, or \<open>Recently added\<close> for a book
  with no rating; if these are fewer than \<open>limit\<close>, the recent books follow that are not
  rated and not yet in the list (one entry for each book id), with score 0.3 and the reason
  \<open>Recently added\<close>; the list is cut to \<open>limit\<close>. A user with no interests and no
  ratings, given three popular books and the limit 3, gets these three books, and nothing
  from the two engines.
\<close>

theorem fallback_composition:
  "get_fallback_recommendations db user_id limit =
     (let rated = set (get_rated_book_ids db user_id);
          popular_part = map popular_rec
            (filter (\<lambda>row. b_id (fst row) \<notin> rated) (get_popular_books db limit));
          recent_part = map recent_rec
            (new_recent rated (set (book_ids popular_part)) (get_recent_books db limit))
      in slice_to limit
           (if int (length popular_part) < limit then popular_part @ recent_part else popular_part)) \<and>
   (\<forall>u p1 p2 p3.
      get_user_by_id db user_id = Some u \<and> u_interests u = [] \<and> get_rated_book_ids db user_id = [] \<and>
      get_popular_books db 3 = [p1, p2, p3] \<longrightarrow>
      get_recommendations db user_id 3 =
        Inr \<lparr> content_based = [], collaborative = [],
              fallback = [popular_rec p1, popular_rec p2, popular_rec p3] \<rparr>)"
proof (intro conjI allI impI)
  show "get_fallback_recommendations db user_id limit =
     (let rated = set (get_rated_book_ids db user_id);
          popular_part = map popular_rec
            (filter (\<lambda>row. b_id (fst row) \<notin> rated) (get_popular_books db limit));
          recent_part = map recent_rec
            (new_recent rated (set (book_ids popular_part)) (get_recent_books db limit))
      in slice_to limit
           (if int (length popular_part) < limit then popular_part @ recent_part else popular_part))"
    by (rule fallback_unfold)
next
  fix u p1 p2 p3
  assume h: "get_user_by_id db user_id = Some u \<and> u_interests u = [] \<and>
      get_rated_book_ids db user_id = [] \<and> get_popular_books db 3 = [p1, p2, p3]"
  then have c: "get_content_based_recommendations db user_id 3 = []"
    by (simp add: content_no_interests)
  from h have "find_similar_users db user_id MIN_SIMILARITY_THRESHOLD = []"
    by (simp add: peers_no_interests)
  then have k: "get_collaborative_recommendations db user_id 3 = Inr []"
    by (rule collaborative_no_peers)
  from h have f: "get_fallback_recommendations db user_id 3 = [popular_rec p1, popular_rec p2, popular_rec p3]"
    by (simp add: fallback_unfold Let_def slice_to_def)
  from c f show "get_recommendations db user_id 3 =
        Inr \<lparr> content_based = [], collaborative = [],
              fallback = [popular_rec p1, popular_rec p2, popular_rec p3] \<rparr>"
    by (simp add: recommendations_unfold [OF k])
qed

theorem fallback_composition_witness:
  "get_user_by_id ex_db 7 = Some \<lparr> u_id = 7, u_username = ''new'', u_interests = [] \<rparr> \<and>
   get_rated_book_ids ex_db 7 = [] \<and>
   get_popular_books ex_db 3 =
     [(mk_book 10 ''X'' [''Fantasy''], 2), (mk_book 12 ''Z'' [''Science'', ''History''], 1),
      (mk_book 11 ''Y'' [''Mystery'', ''Drama''], 0)] \<and>
   get_recommendations ex_db 7 3 =
     Inr \<lparr> content_based = [], collaborative = [],
           fallback =
             [\<lparr> r_book = mk_book 10 ''X'' [''Fantasy''], r_score = 1 / 2,
                r_reason = ''Popular among readers'', r_recommendation_type = ''fallback'',
                r_num_similar_users = None \<rparr>,
              \<lparr> r_book = mk_book 12 ''Z'' [''Science'', ''History''], r_score = 1 / 2,
                r_reason = ''Popular among readers'', r_recommendation_type = ''fallback'',
                r_num_similar_users = None \<rparr>,
              \<lparr> r_book = mk_book 11 ''Y'' [''Mystery'', ''Drama''], r_score = 1 / 2,
                r_reason = ''Recently added'', r_recommendation_type = ''fallback'',
                r_num_similar_users = None \<rparr>] \<rparr>"
proof -
  have u: "get_user_by_id ex_db 7 = Some \<lparr> u_id = 7, u_username = ''new'', u_interests = [] \<rparr>"
    by code_simp
  have r: "get_rated_book_ids ex_db 7 = []"
    by code_simp
  have p: "get_popular_books ex_db 3 =
     [(mk_book 10 ''X'' [''Fantasy''], 2), (mk_book 12 ''Z'' [''Science'', ''History''], 1),
      (mk_book 11 ''Y'' [''Mystery'', ''Drama''], 0)]"
    by code_simp
  from fallback_composition [of ex_db 7 3] u r p
  have "get_recommendations ex_db 7 3 =
        Inr \<lparr> content_based = [], collaborative = [],
              fallback = [popular_rec (mk_book 10 ''X'' [''Fantasy''], 2),
                          popular_rec (mk_book 12 ''Z'' [''Science'', ''History''], 1),
                          popular_rec (mk_book 11 ''Y'' [''Mystery'', ''Drama''], 0)] \<rparr>"
    by simp
  with u r p show ?thesis
    by (simp add: popular_rec_def)
qed

section \<open>The reason of a content-based recommendation\<close>

text \<open>
  Claim C8 does not hold of the code. The score compares the labels lowered and trimmed
  (\<open>normalize_genres\<close>), the reason compares them lowered only. For a user whose
  interest is stored as \<open>" Fantasy"\<close> and a book of genre \<open>"Fantasy"\<close> the score is 1
  and the book is recommended, with the generic reason and no genre named.
\<close>

theorem content_reason_misses_trimmed_overlap:
  "calculate_genre_overlap ['' Fantasy''] [''Fantasy''] = 1 \<and>
   content_reason ['' Fantasy''] [''Fantasy''] = ''Based on your reading preferences'' \<and>
   map (\<lambda>r. (b_id (r_book r), r_score r, r_reason r)) (get_content_based_recommendations blank_db 1 10) =
     [(10, 1, ''Based on your reading preferences'')]"
  by code_simp

section \<open>The collaborative score\<close>



section \<open>Rounded similarities in the collaborative engine\<close>



section \<open>The personalized home feed\<close>

text \<open>
  Claim C5, as stated for every limit, fails for a negative one: the loop is not entered,
  the feed is empty, and its length 0 is not at most the limit.
\<close>

theorem home_feed_negative_limit_counterexample:
  "get_personalized_home_feed ex_db 1 (- 1) = Inr [] \<and>
   \<not> int (length ([] :: recommendation list)) \<le> - 1"
proof -
  have "get_personalized_home_feed ex_db 1 (- 1) = Inr []"
    by code_simp
  then show ?thesis by simp
qed

text \<open>
  Claim C5, amended: for every user and every non-negative limit. The feed has no two
  entries with the same book id and at most \<open>limit\<close> entries. It is the round-robin
  interleaving of the lists \<open>content_based\<close>, \<open>collaborative\<close> and \<open>fallback\<close>, in
  this order at each index and by increasing index, without the books already in the feed,
  up to the first index \<open>k\<close> at which the limit is reached or the pass over the three
  sources adds nothing, cut to \<open>limit\<close>.
\<close>

theorem home_feed_round_robin:
  assumes "0 \<le> limit"
  shows "\<exists>all_recs feed k.
           get_recommendations db user_id limit = Inr all_recs \<and>
           get_personalized_home_feed db user_id limit = Inr feed \<and>
           distinct (book_ids feed) \<and> int (length feed) \<le> limit \<and>
           (let sources = [content_based all_recs, collaborative all_recs, fallback all_recs]
            in feed = slice_to limit (interleaved k sources) \<and>
               (limit \<le> int (length (interleaved k sources)) \<or>
                interleaved (Suc k) sources = interleaved k sources) \<and>
               (\<forall>j<k. int (length (interleaved j sources)) < limit \<and>
                       interleaved (Suc j) sources \<noteq> interleaved j sources))"
proof -
  obtain collab where collab: "get_collaborative_recommendations db user_id limit = Inr collab"
    using collaborative_total by blast
  obtain all_recs where all_recs: "get_recommendations db user_id limit = Inr all_recs"
    by (simp add: recommendations_unfold [OF collab])
  let ?sources = "[content_based all_recs, collaborative all_recs, fallback all_recs]"
  have "interleaved 0 ?sources = []"
    by (simp add: interleaved_def round_robin_def)
  then have "[] = interleaved 0 ?sources" "{} = set (book_ids ([] :: recommendation list))"
    by (simp_all add: book_ids_def)
  from feed_loop_interleaved [OF this, of limit] obtain k where
    k: "feed_loop limit ?sources 0 [] {} = interleaved k ?sources"
       "limit \<le> int (length (interleaved k ?sources)) \<or>
        interleaved (Suc k) ?sources = interleaved k ?sources"
       "\<forall>j<k. int (length (interleaved j ?sources)) < limit \<and>
              interleaved (Suc j) ?sources \<noteq> interleaved j ?sources"
    by auto
  let ?feed = "slice_to limit (interleaved k ?sources)"
  have f: "get_personalized_home_feed db user_id limit = Inr ?feed"
    by (simp add: get_personalized_home_feed_def all_recs Let_def k(1))
  have d: "distinct (book_ids ?feed)"
    by (rule distinct_book_ids_slice) (simp add: interleaved_def first_by_id_distinct)
  have l: "int (length ?feed) \<le> limit"
    using assms by (rule length_slice_to)
  from all_recs f d l k(2,3) show ?thesis
    by (intro exI [of _ all_recs] exI [of _ ?feed] exI [of _ k]) (simp add: Let_def)
qed

theorem home_feed_round_robin_witness:
  "(0::int) \<le> 10 \<and>
   map (\<lambda>r. (b_id (r_book r), r_recommendation_type r))
     (content_based (projr (get_recommendations ex_db 1 10))) =
     [(10, ''content_based''), (11, ''content_based'')] \<and>
   map (\<lambda>r. (b_id (r_book r), r_recommendation_type r))
     (collaborative (projr (get_recommendations ex_db 1 10))) = [(10, ''collaborative'')] \<and>
   (\<exists>feed. get_personalized_home_feed ex_db 1 10 = Inr feed \<and>
      map (\<lambda>r. (b_id (r_book r), r_recommendation_type r)) feed =
        [(10, ''content_based''), (11, ''content_based'')] \<and>
      distinct (book_ids feed) \<and> int (length feed) \<le> 10)"
proof -
  have h: "(0::int) \<le> 10" by simp
  have c: "map (\<lambda>r. (b_id (r_book r), r_recommendation_type r))
     (content_based (projr (get_recommendations ex_db 1 10))) =
     [(10, ''content_based''), (11, ''content_based'')]"
    by code_simp
  have k: "map (\<lambda>r. (b_id (r_book r), r_recommendation_type r))
     (collaborative (projr (get_recommendations ex_db 1 10))) = [(10, ''collaborative'')]"
    by code_simp
  have e: "map (\<lambda>r. (b_id (r_book r), r_recommendation_type r))
     (projr (get_personalized_home_feed ex_db 1 10)) =
     [(10, ''content_based''), (11, ''content_based'')]"
    by code_simp
  from home_feed_round_robin [OF h, of ex_db 1] obtain feed where
    feed: "get_personalized_home_feed ex_db 1 10 = Inr feed"
      "distinct (book_ids feed)" "int (length feed) \<le> 10"
    by blast
  from e feed(1) have m: "map (\<lambda>r. (b_id (r_book r), r_recommendation_type r)) feed =
        [(10, ''content_based''), (11, ''content_based'')]"
    by simp
  show ?thesis
    by (intro conjI exI [of _ feed]) (rule h c k feed m)+
qed

end
